theory Spec2Isabelle
  imports Complex_Main
begin

section \<open>JavaScript values\<close>

text \<open>
  The sources are untyped JavaScript and TypeScript over \<^verbatim>\<open>any\<close>: options bags,
  sub-operation descriptors and server responses are plain objects whose properties may
  hold any value. A number is an IEEE double; only its sign and whether it is NaN matter
  to the code modelled here, so a finite double is taken as the rational it denotes
  (\<open>+0\<close> and \<open>-0\<close> are both \<open>Fin 0\<close>, which \<^verbatim>\<open>===\<close>, \<^verbatim>\<open>>\<close> and truthiness do
  not tell apart).
\<close>

datatype jsnum = NaN | PosInf | NegInf | Fin rat

text \<open>
  A plain object is the ordered list of its own properties; \<open>JError m\<close> is an
  \<^verbatim>\<open>Error\<close> object with message \<open>m\<close>. Arrays as property values, functions and
  objects that define their own conversion methods are not represented.
\<close>

datatype jsval =
    JUndefined
  | JNull
  | JBool bool
  | JNum jsnum
  | JStr string
  | JObj "(string \<times> jsval) list"
  | JError string

type_synonym document = "(string \<times> jsval) list"

text \<open>\<^verbatim>\<open>d.k\<close> on a plain object: a missing property reads as \<^verbatim>\<open>undefined\<close>.\<close>

definition get_property :: "document \<Rightarrow> string \<Rightarrow> jsval" where
  "get_property d k = (case map_of d k of None \<Rightarrow> JUndefined | Some v \<Rightarrow> v)"

text \<open>\<^verbatim>\<open>typeof v\<close>.\<close>

fun typeof :: "jsval \<Rightarrow> string" where
  "typeof JUndefined = ''undefined''"
| "typeof JNull = ''object''"
| "typeof (JBool b) = ''boolean''"
| "typeof (JNum n) = ''number''"
| "typeof (JStr s) = ''string''"
| "typeof (JObj d) = ''object''"
| "typeof (JError m) = ''object''"

text \<open>\<^verbatim>\<open>v == null\<close>: loose equality with \<^verbatim>\<open>null\<close> holds for \<^verbatim>\<open>null\<close> and \<^verbatim>\<open>undefined\<close> only.\<close>

fun loose_equals_null :: "jsval \<Rightarrow> bool" where
  "loose_equals_null JUndefined = True"
| "loose_equals_null JNull = True"
| "loose_equals_null v = False"

text \<open>
  \<^verbatim>\<open>v === lit\<close> where \<open>lit\<close> is a boolean, finite number or string literal, the only use
  the sources make of strict equality: same type and same value. NaN equals nothing, and an
  object is never equal to a primitive.
\<close>

fun strict_equals :: "jsval \<Rightarrow> jsval \<Rightarrow> bool" where
  "strict_equals (JNum NaN) lit = False"
| "strict_equals (JObj d) lit = False"
| "strict_equals (JError m) lit = False"
| "strict_equals v lit = (v = lit)"

text \<open>Truthiness (\<^verbatim>\<open>ToBoolean\<close>), as used by \<^verbatim>\<open>if (v)\<close>, \<^verbatim>\<open>!v\<close> and \<^verbatim>\<open>||\<close>.\<close>

fun truthy :: "jsval \<Rightarrow> bool" where
  "truthy JUndefined = False"
| "truthy JNull = False"
| "truthy (JBool b) = b"
| "truthy (JNum NaN) = False"
| "truthy (JNum (Fin q)) = (q \<noteq> 0)"
| "truthy (JNum n) = True"
| "truthy (JStr s) = (s \<noteq> [])"
| "truthy (JObj d) = True"
| "truthy (JError m) = True"

text \<open>
  \<^verbatim>\<open>ToNumber\<close>. The conversion of a string (\<^verbatim>\<open>StringToNumber\<close>, the numeric-literal
  grammar of the language) is a parameter. A plain object and an \<^verbatim>\<open>Error\<close> convert through
  their default string forms, which are not numeric literals.
\<close>

fun ToNumber :: "(string \<Rightarrow> jsnum) \<Rightarrow> jsval \<Rightarrow> jsnum" where
  "ToNumber StringToNumber JUndefined = NaN"
| "ToNumber StringToNumber JNull = Fin 0"
| "ToNumber StringToNumber (JBool b) = (if b then Fin 1 else Fin 0)"
| "ToNumber StringToNumber (JNum n) = n"
| "ToNumber StringToNumber (JStr s) = StringToNumber s"
| "ToNumber StringToNumber (JObj d) = NaN"
| "ToNumber StringToNumber (JError m) = NaN"

text \<open>\<^verbatim>\<open>n > 0\<close> on numbers: false for NaN.\<close>

fun positive :: "jsnum \<Rightarrow> bool" where
  "positive NaN = False"
| "positive PosInf = True"
| "positive NegInf = False"
| "positive (Fin q) = (0 < q)"

text \<open>\<^verbatim>\<open>v > 0\<close>: the right operand is a number, so the left one is converted to a number.\<close>

definition greater_than_zero :: "(string \<Rightarrow> jsnum) \<Rightarrow> jsval \<Rightarrow> bool" where
  "greater_than_zero StringToNumber v = positive (ToNumber StringToNumber v)"

text \<open>\<^verbatim>\<open>Array.prototype.every\<close> on a dense array: stops at the first element that fails.\<close>

fun every :: "('a \<Rightarrow> bool) \<Rightarrow> 'a list \<Rightarrow> bool" where
  "every p [] = True"
| "every p (x # xs) = (if p x then every p xs else False)"

section \<open>Bulk-shaped write operations (update.ts, delete.ts)\<close>

text \<open>
  \<^verbatim>\<open>class UpdateOperation\<close>: the constructor stores the namespace, the array of
  sub-operation descriptors and the options.
\<close>

datatype UpdateOperation =
  UpdateOperation (update_namespace: string) (update_operations: "document list")
    (update_options: document)

text \<open>
  \<^verbatim>\<open>get canRetryWrite() { return this.operations.every((op) => op.multi == null || op.multi === false); }\<close>
\<close>

definition UpdateOperation_canRetryWrite :: "UpdateOperation \<Rightarrow> bool" where
  "UpdateOperation_canRetryWrite this =
     every (\<lambda>op. loose_equals_null (get_property op ''multi'')
                 \<or> strict_equals (get_property op ''multi'') (JBool False))
       (update_operations this)"

text \<open>\<^verbatim>\<open>class DeleteOperation\<close>, of the same shape.\<close>

datatype DeleteOperation =
  DeleteOperation (delete_namespace: string) (delete_operations: "document list")
    (delete_options: document)

text \<open>
  \<^verbatim>\<open>get canRetryWrite() { return this.operations.every(op => (typeof op.limit !== 'undefined' ? op.limit > 0 : true)); }\<close>
\<close>

definition DeleteOperation_canRetryWrite :: "(string \<Rightarrow> jsnum) \<Rightarrow> DeleteOperation \<Rightarrow> bool" where
  "DeleteOperation_canRetryWrite StringToNumber this =
     every (\<lambda>op. if typeof (get_property op ''limit'') \<noteq> ''undefined''
                 then greater_than_zero StringToNumber (get_property op ''limit'')
                 else True)
       (delete_operations this)"

section \<open>The write-concern resolver (admin.js)\<close>

text \<open>
  \<^verbatim>\<open>v.k\<close> for a value \<open>v\<close> that is neither \<^verbatim>\<open>null\<close> nor \<^verbatim>\<open>undefined\<close> (reading a
  property of those throws; every use below is behind the guard the source has, or models
  the throw). None of the properties read here exists on a boolean, number or string.
\<close>

fun member :: "jsval \<Rightarrow> string \<Rightarrow> jsval" where
  "member (JObj d) k = get_property d k"
| "member (JError m) k = (if k = ''message'' then JStr m else JUndefined)"
| "member v k = JUndefined"

text \<open>\<^verbatim>\<open>d.k = v\<close>: an existing property keeps its place, a new one is added last.\<close>

fun set_property :: "document \<Rightarrow> string \<Rightarrow> jsval \<Rightarrow> document" where
  "set_property [] k v = [(k, v)]"
| "set_property ((k', v') # d) k v =
     (if k' = k then (k, v) # d else (k', v') # set_property d k v)"

text \<open>
  Modelled from the spec: \<^verbatim>\<open>shallowClone\<close> of \<^verbatim>\<open>lib/utils\<close> is not among the sources; the
  spec calls its result a shallow copy of the options. The copy has the properties of the
  original, and objects are values here.
\<close>

definition shallowClone :: "document \<Rightarrow> document" where
  "shallowClone obj = obj"

text \<open>
  \<^verbatim>\<open>var writeConcern = function(options, db)\<close>, lines 148 to 166 of admin.js. The early
  return tests the truthiness of the four properties. The block under the comment
  \<^verbatim>\<open>// Set db write concern if available\<close> assigns each property from
  \<^verbatim>\<open>db.writeConcern\<close> under the guard \<^verbatim>\<open>if (options.w)\<close>, \<^verbatim>\<open>if (options.wtimeout)\<close>, ...,
  read from the options as they are after the assignments before it.
\<close>

definition writeConcern :: "document \<Rightarrow> document \<Rightarrow> document" where
  "writeConcern options_arg db =
     (let options = shallowClone options_arg in
      if truthy (get_property options ''w'') \<or> truthy (get_property options ''wtimeout'')
         \<or> truthy (get_property options ''j'') \<or> truthy (get_property options ''fsync'')
      then options
      else if truthy (get_property db ''writeConcern'') then
        (let wc = get_property db ''writeConcern'';
             options1 = (if truthy (get_property options ''w'')
                         then set_property options ''w'' (member wc ''w'') else options);
             options2 = (if truthy (get_property options1 ''wtimeout'')
                         then set_property options1 ''wtimeout'' (member wc ''wtimeout'')
                         else options1);
             options3 = (if truthy (get_property options2 ''j'')
                         then set_property options2 ''j'' (member wc ''j'') else options2);
             options4 = (if truthy (get_property options3 ''fsync'')
                         then set_property options3 ''fsync'' (member wc ''fsync'')
                         else options3)
         in options4)
      else options)"

section \<open>Admin commands (admin.js)\<close>

text \<open>
  A command function hands a command document to the database collaborator
  (\<^verbatim>\<open>executeDbAdminCommand\<close>, \<^verbatim>\<open>db.command\<close>), which later calls the function's handler
  with \<open>(err, doc)\<close>. The handler calls the caller's callback. A run is modelled by the
  command issued and, for the reply \<open>(err, doc)\<close> the collaborator delivers, the list of
  calls made to the callback, each call being its argument list. Reading a property of a
  \<^verbatim>\<open>null\<close> or \<^verbatim>\<open>undefined\<close> reply throws instead.
\<close>

datatype exn = TypeError string | PropertyReadOfNullish

type_synonym call = "jsval list"

text \<open>
  The handler of \<^verbatim>\<open>serverStatus\<close>, lines 120 to 127. \<^verbatim>\<open>toError\<close> of \<^verbatim>\<open>lib/utils\<close> is not
  among the sources and is a parameter.
\<close>

definition serverStatus_reply :: "(jsval \<Rightarrow> jsval) \<Rightarrow> jsval \<Rightarrow> jsval \<Rightarrow> exn + call list" where
  "serverStatus_reply toError err doc =
     (if loose_equals_null err \<and> loose_equals_null doc then Inl PropertyReadOfNullish
      else if loose_equals_null err \<and> strict_equals (member doc ''ok'') (JNum (Fin 1))
      then Inr [[JNull, doc]]
      else if truthy err then Inr [[err, JBool False]]
      else Inr [[toError doc, JBool False]])"

definition serverStatus ::
  "(jsval \<Rightarrow> jsval) \<Rightarrow> jsval \<Rightarrow> jsval \<Rightarrow> document \<times> (exn + call list)" where
  "serverStatus toError err doc =
     ([(''serverStatus'', JNum (Fin 1))], serverStatus_reply toError err doc)"

text \<open>The handler of \<^verbatim>\<open>replSetGetStatus\<close>, lines 326 to 330.\<close>

definition replSetGetStatus_reply ::
  "(jsval \<Rightarrow> jsval) \<Rightarrow> jsval \<Rightarrow> jsval \<Rightarrow> exn + call list" where
  "replSetGetStatus_reply toError err doc =
     (if loose_equals_null err \<and> loose_equals_null doc then Inl PropertyReadOfNullish
      else if loose_equals_null err \<and> strict_equals (member doc ''ok'') (JNum (Fin 1))
      then Inr [[JNull, doc]]
      else if truthy err then Inr [[err, JBool False]]
      else Inr [[toError doc, JBool False]])"

definition replSetGetStatus ::
  "(jsval \<Rightarrow> jsval) \<Rightarrow> jsval \<Rightarrow> jsval \<Rightarrow> document \<times> (exn + call list)" where
  "replSetGetStatus toError err doc =
     ([(''replSetGetStatus'', JNum (Fin 1))], replSetGetStatus_reply toError err doc)"

text \<open>
  \<^verbatim>\<open>s.match(/exception|corrupt/) != null\<close> on a string: the pattern is an alternation of
  two literal words with no anchor, so it matches when one of them occurs in \<open>s\<close>.
\<close>

fun starts_with :: "string \<Rightarrow> string \<Rightarrow> bool" where
  "starts_with [] s = True"
| "starts_with (c # w) [] = False"
| "starts_with (c # w) (c' # s) = (c = c' \<and> starts_with w s)"

fun occurs_in :: "string \<Rightarrow> string \<Rightarrow> bool" where
  "occurs_in w [] = starts_with w []"
| "occurs_in w (c # s) = (starts_with w (c # s) \<or> occurs_in w s)"

definition matches_exception_or_corrupt :: "string \<Rightarrow> bool" where
  "matches_exception_or_corrupt s = (occurs_in ''exception'' s \<or> occurs_in ''corrupt'' s)"

text \<open>
  \<^verbatim>\<open>v.constructor !== String\<close> for a value of a response document (no function values
  there), not \<^verbatim>\<open>null\<close> or \<^verbatim>\<open>undefined\<close>: only a string has \<^verbatim>\<open>String\<close> as its constructor.
\<close>

fun constructor_is_String :: "jsval \<Rightarrow> bool" where
  "constructor_is_String (JStr s) = True"
| "constructor_is_String v = False"

text \<open>
  The handler of \<^verbatim>\<open>validateCollection\<close>, lines 267 to 279. The \<^verbatim>\<open>match\<close> call is reached
  with a string only, the check before it having returned otherwise. Building the command
  document from the options (lines 257 to 265) is not modelled: what is stated of
  \<^verbatim>\<open>validateCollection\<close> below is stated of this handler, for the reply it is given.
\<close>

definition validateCollection_reply :: "string \<Rightarrow> jsval \<Rightarrow> jsval \<Rightarrow> exn + call list" where
  "validateCollection_reply collectionName err doc =
     (if \<not> loose_equals_null err then Inr [[err, JNull]]
      else if loose_equals_null doc then Inl PropertyReadOfNullish
      else if strict_equals (member doc ''ok'') (JNum (Fin 0))
      then Inr [[JError ''Error with validate command'', JNull]]
      else if \<not> loose_equals_null (member doc ''result'')
              \<and> \<not> constructor_is_String (member doc ''result'')
      then Inr [[JError ''Error with validation data'', JNull]]
      else if \<not> loose_equals_null (member doc ''result'')
              \<and> (case member doc ''result'' of
                    JStr s \<Rightarrow> matches_exception_or_corrupt s
                  | _ \<Rightarrow> False)
      then Inr [[JError (''Error: invalid collection '' @ collectionName), JNull]]
      else if \<not> loose_equals_null (member doc ''valid'') \<and> \<not> truthy (member doc ''valid'')
      then Inr [[JError (''Error: invalid collection '' @ collectionName), JNull]]
      else Inr [[JNull, doc]])"

section \<open>Setting the profiling level (SetProfilingLevelOperation)\<close>

text \<open>\<^verbatim>\<open>const levelValues = new Set(['off', 'slow_only', 'all']);\<close>\<close>

definition levelValues :: "string set" where
  "levelValues = {''off'', ''slow_only'', ''all''}"

text \<open>
  The operation keeps the symbolic level and the integer computed from it. The level is
  taken to be a string, as the public method passes it; the database handle and the options
  go to the base class \<^verbatim>\<open>CommandOperation\<close>, which is not among the sources.
\<close>

datatype SetProfilingLevelOperation =
  SetProfilingLevelOperation (level: string) (profile: int) (profiling_options: document)

text \<open>The constructor, lines 11 to 24.\<close>

definition SetProfilingLevelOperation_new ::
  "string \<Rightarrow> document \<Rightarrow> SetProfilingLevelOperation" where
  "SetProfilingLevelOperation_new lvl options =
     (let profile0 = 0;
          profile1 = (if lvl = ''off'' then 0
                      else if lvl = ''slow_only'' then 1
                      else if lvl = ''all'' then 2
                      else profile0)
      in SetProfilingLevelOperation lvl profile1 options)"

text \<open>
  The handler passed to \<^verbatim>\<open>super.executeCommand\<close>, lines 34 to 38: on success the
  callback gets \<^verbatim>\<open>(undefined, level)\<close>.
\<close>

definition SetProfilingLevelOperation_reply :: "string \<Rightarrow> jsval \<Rightarrow> jsval \<Rightarrow> exn + call list" where
  "SetProfilingLevelOperation_reply lvl err doc =
     (if loose_equals_null err \<and> loose_equals_null doc then Inl PropertyReadOfNullish
      else if loose_equals_null err \<and> strict_equals (member doc ''ok'') (JNum (Fin 1))
      then Inr [[JUndefined, JStr lvl]]
      else if \<not> loose_equals_null err then Inr [[err, JNull]]
      else Inr [[JError ''Error with profile command'', JNull]])"

text \<open>
  \<^verbatim>\<open>execute(server, callback)\<close>, lines 26 to 39: the list of commands handed to
  \<^verbatim>\<open>executeCommand\<close> (none or one) and the calls made to the callback when the reply to
  the command is \<open>(err, doc)\<close>. An unrecognised level calls back at once, with the error as
  the only argument.
\<close>

definition SetProfilingLevelOperation_execute ::
  "SetProfilingLevelOperation \<Rightarrow> jsval \<Rightarrow> jsval \<Rightarrow> document list \<times> (exn + call list)" where
  "SetProfilingLevelOperation_execute this err doc =
     (let lvl = level this in
      if lvl \<notin> levelValues
      then ([], Inr [[JError (''Error: illegal profiling level value '' @ lvl)]])
      else ([[(''profile'', JNum (Fin (of_int (profile this))))]],
            SetProfilingLevelOperation_reply lvl err doc))"

section \<open>Single-target write operations (update.ts, delete.ts)\<close>

text \<open>
  The constructors store their arguments; \<^verbatim>\<open>super(collection, options)\<close> is the constructor
  of \<^verbatim>\<open>CommandOperation\<close>, not among the sources, taken to store the options. A collection
  stands as its name. \<^verbatim>\<open>hasAtomicOperators\<close> of \<^verbatim>\<open>../utils\<close> is not among the sources and
  is a parameter.
\<close>

datatype UpdateOneOperation =
  UpdateOneOperation (updateOne_collection: string) (updateOne_filter: jsval)
    (updateOne_update: jsval) (updateOne_options: document)

definition UpdateOneOperation_new ::
  "(jsval \<Rightarrow> bool) \<Rightarrow> string \<Rightarrow> jsval \<Rightarrow> jsval \<Rightarrow> document \<Rightarrow> exn + UpdateOneOperation" where
  "UpdateOneOperation_new hasAtomicOperators collection filter' update options =
     (if \<not> hasAtomicOperators update
      then Inl (TypeError ''Update document requires atomic operators'')
      else Inr (UpdateOneOperation collection filter' update options))"

datatype UpdateManyOperation =
  UpdateManyOperation (updateMany_collection: string) (updateMany_filter: jsval)
    (updateMany_update: jsval) (updateMany_options: document)

text \<open>The constructor of \<^verbatim>\<open>UpdateManyOperation\<close>, lines 65 to 71 of update.ts: no check.\<close>

definition UpdateManyOperation_new ::
  "string \<Rightarrow> jsval \<Rightarrow> jsval \<Rightarrow> document \<Rightarrow> exn + UpdateManyOperation" where
  "UpdateManyOperation_new collection filter' update options =
     Inr (UpdateManyOperation collection filter' update options)"

text \<open>\<^verbatim>\<open>isObject\<close> of Node's \<^verbatim>\<open>util\<close>: \<^verbatim>\<open>arg !== null && typeof arg === 'object'\<close>.\<close>

definition isObject :: "jsval \<Rightarrow> bool" where
  "isObject arg = (arg \<noteq> JNull \<and> typeof arg = ''object'')"

datatype DeleteOneOperation =
  DeleteOneOperation (deleteOne_collection: string) (deleteOne_filter: jsval)
    (deleteOne_options: document)

text \<open>The constructor of \<^verbatim>\<open>DeleteOneOperation\<close>, lines 36 to 41 of delete.ts: no check.\<close>

definition DeleteOneOperation_new ::
  "string \<Rightarrow> jsval \<Rightarrow> document \<Rightarrow> exn + DeleteOneOperation" where
  "DeleteOneOperation_new collection filter' options =
     Inr (DeleteOneOperation collection filter' options)"

datatype DeleteManyOperation =
  DeleteManyOperation (deleteMany_collection: string) (deleteMany_filter: jsval)
    (deleteMany_options: document)

text \<open>The constructor of \<^verbatim>\<open>DeleteManyOperation\<close>, lines 57 to 66 of delete.ts.\<close>

definition DeleteManyOperation_new ::
  "string \<Rightarrow> jsval \<Rightarrow> document \<Rightarrow> exn + DeleteManyOperation" where
  "DeleteManyOperation_new collection filter' options =
     (if \<not> isObject filter'
      then Inl (TypeError ''filter is a required parameter'')
      else Inr (DeleteManyOperation collection filter' options))"

section \<open>Retry eligibility\<close>

lemma every_iff: "every p xs \<longleftrightarrow> (\<forall>x \<in> set xs. p x)"
  by (induction xs) auto

lemma typeof_undefined_iff: "typeof v = ''undefined'' \<longleftrightarrow> v = JUndefined"
  by (cases v) auto

lemma loose_equals_null_iff: "loose_equals_null v \<longleftrightarrow> v = JUndefined \<or> v = JNull"
  by (cases v) auto

lemma strict_equals_false_iff: "strict_equals v (JBool False) \<longleftrightarrow> v = JBool False"
  by (induction v "JBool False" rule: strict_equals.induct) auto

lemma get_property_absent: "k \<notin> fst ` set d \<Longrightarrow> get_property d k = JUndefined"
proof -
  assume "k \<notin> fst ` set d"
  then have "map_of d k = None"
    by (simp add: map_of_eq_None_iff)
  then show ?thesis
    by (simp add: get_property_def)
qed

lemma greater_than_zero_number:
  "greater_than_zero StringToNumber (JNum (Fin q)) \<longleftrightarrow> 0 < q"
  by (simp add: greater_than_zero_def)

lemma update_canRetryWrite_iff:
  "UpdateOperation_canRetryWrite this \<longleftrightarrow>
     (\<forall>op \<in> set (update_operations this).
        get_property op ''multi'' = JUndefined \<or> get_property op ''multi'' = JNull
        \<or> get_property op ''multi'' = JBool False)"
  by (simp add: UpdateOperation_canRetryWrite_def every_iff loose_equals_null_iff
      strict_equals_false_iff disj_ac)

lemma delete_canRetryWrite_iff:
  "DeleteOperation_canRetryWrite StringToNumber this \<longleftrightarrow>
     (\<forall>op \<in> set (delete_operations this).
        get_property op ''limit'' = JUndefined
        \<or> greater_than_zero StringToNumber (get_property op ''limit''))"
  by (auto simp: DeleteOperation_canRetryWrite_def every_iff typeof_undefined_iff)

text \<open>
  Claim C1. \<^verbatim>\<open>UpdateOperation.canRetryWrite\<close> is true exactly when the \<^verbatim>\<open>multi\<close> property
  of every sub-operation is absent or \<^verbatim>\<open>undefined\<close>, \<^verbatim>\<open>null\<close>, or the boolean \<^verbatim>\<open>false\<close>.
  In particular \<^verbatim>\<open>[{multi:false}]\<close> gives true, \<^verbatim>\<open>[{multi:true}]\<close> false,
  \<^verbatim>\<open>[{}, {multi:false}]\<close> true and \<^verbatim>\<open>[{}, {multi:true}]\<close> false.
\<close>

theorem update_canRetryWrite_multi:
  "(UpdateOperation_canRetryWrite (UpdateOperation ns ops opts) \<longleftrightarrow>
      (\<forall>op \<in> set ops.
         get_property op ''multi'' = JUndefined \<or> get_property op ''multi'' = JNull
         \<or> get_property op ''multi'' = JBool False))
   \<and> UpdateOperation_canRetryWrite (UpdateOperation ns [[(''multi'', JBool False)]] opts)
   \<and> \<not> UpdateOperation_canRetryWrite (UpdateOperation ns [[(''multi'', JBool True)]] opts)
   \<and> UpdateOperation_canRetryWrite (UpdateOperation ns [[], [(''multi'', JBool False)]] opts)
   \<and> \<not> UpdateOperation_canRetryWrite (UpdateOperation ns [[], [(''multi'', JBool True)]] opts)"
  by (simp add: update_canRetryWrite_iff get_property_def)

theorem update_canRetryWrite_multi_witness:
  "UpdateOperation_canRetryWrite
     (UpdateOperation ''db.coll''
        [[(''q'', JObj []), (''u'', JObj [(''$set'', JObj [(''a'', JNum (Fin 1))])])],
         [(''q'', JObj []), (''multi'', JNull)],
         [(''multi'', JBool False)]] [])
   \<and> \<not> UpdateOperation_canRetryWrite
     (UpdateOperation ''db.coll'' [[(''multi'', JNum (Fin 0))]] [])"
  using update_canRetryWrite_multi
      [of "''db.coll''"
        "[[(''q'', JObj []), (''u'', JObj [(''$set'', JObj [(''a'', JNum (Fin 1))])])],
         [(''q'', JObj []), (''multi'', JNull)],
         [(''multi'', JBool False)]]" "[]"]
    update_canRetryWrite_multi [of "''db.coll''" "[[(''multi'', JNum (Fin 0))]]" "[]"]
  by (simp add: get_property_def)

text \<open>
  Claim C2. \<^verbatim>\<open>DeleteOperation.canRetryWrite\<close> is true exactly when the \<^verbatim>\<open>limit\<close> property
  of every sub-operation is unset (reads as \<^verbatim>\<open>undefined\<close>) or satisfies \<^verbatim>\<open>limit > 0\<close>; for a
  finite number that is being positive. In particular \<^verbatim>\<open>[{limit:1}]\<close> gives true,
  \<^verbatim>\<open>[{limit:0}]\<close> false, \<^verbatim>\<open>[{}]\<close> true and \<^verbatim>\<open>[{limit:1},{limit:0}]\<close> false.
\<close>

theorem delete_canRetryWrite_limit:
  "(DeleteOperation_canRetryWrite StringToNumber (DeleteOperation ns ops opts) \<longleftrightarrow>
      (\<forall>op \<in> set ops.
         get_property op ''limit'' = JUndefined
         \<or> greater_than_zero StringToNumber (get_property op ''limit'')))
   \<and> (greater_than_zero StringToNumber (JNum (Fin q)) \<longleftrightarrow> 0 < q)
   \<and> DeleteOperation_canRetryWrite StringToNumber
        (DeleteOperation ns [[(''limit'', JNum (Fin 1))]] opts)
   \<and> \<not> DeleteOperation_canRetryWrite StringToNumber
        (DeleteOperation ns [[(''limit'', JNum (Fin 0))]] opts)
   \<and> DeleteOperation_canRetryWrite StringToNumber (DeleteOperation ns [[]] opts)
   \<and> \<not> DeleteOperation_canRetryWrite StringToNumber
        (DeleteOperation ns [[(''limit'', JNum (Fin 1))], [(''limit'', JNum (Fin 0))]] opts)"
  by (simp add: delete_canRetryWrite_iff greater_than_zero_number get_property_def)

theorem delete_canRetryWrite_limit_witness:
  "DeleteOperation_canRetryWrite (\<lambda>s. NaN)
     (DeleteOperation ''db.coll''
        [[(''q'', JObj []), (''limit'', JNum (Fin 1))], [(''q'', JObj [])]] [])
   \<and> \<not> DeleteOperation_canRetryWrite (\<lambda>s. NaN)
     (DeleteOperation ''db.coll'' [[(''q'', JObj []), (''limit'', JNull)]] [])"
  using delete_canRetryWrite_limit
      [of "\<lambda>s. NaN" "''db.coll''"
        "[[(''q'', JObj []), (''limit'', JNum (Fin 1))], [(''q'', JObj [])]]" "[]" 0]
    delete_canRetryWrite_limit
      [of "\<lambda>s. NaN" "''db.coll''" "[[(''q'', JObj []), (''limit'', JNull)]]" "[]" 0]
  by (simp add: get_property_def greater_than_zero_def)

text \<open>
  Claim C10. For the empty array of sub-operations both \<^verbatim>\<open>canRetryWrite\<close> getters return
  true: an operation built with no sub-operation reports itself as retry-eligible.
\<close>

theorem canRetryWrite_empty:
  "UpdateOperation_canRetryWrite (UpdateOperation ns [] opts)
   \<and> DeleteOperation_canRetryWrite StringToNumber (DeleteOperation ns' [] opts')"
  by (simp add: UpdateOperation_canRetryWrite_def DeleteOperation_canRetryWrite_def)

section \<open>Resolving the write concern\<close>

lemma writeConcern_returns_copy: "writeConcern options db = shallowClone options"
  by (simp add: writeConcern_def Let_def)

text \<open>
  Claim C3. With none of \<^verbatim>\<open>w\<close>, \<^verbatim>\<open>wtimeout\<close>, \<^verbatim>\<open>j\<close>, \<^verbatim>\<open>fsync\<close> in the caller's options the
  resolver should overlay the database default: \<^verbatim>\<open>resolve({}, {writeConcern:{w:2}})\<close> should
  be \<^verbatim>\<open>{w:2}\<close>. The code returns \<^verbatim>\<open>{}\<close>: the assignments under
  \<^verbatim>\<open>// Set db write concern if available\<close> are guarded by the truthiness of the option
  they would set, which is known to be falsy there. The second half of the claim holds:
  \<^verbatim>\<open>resolve({w:1}, {writeConcern:{w:2}})\<close> is \<^verbatim>\<open>{w:1}\<close>.
\<close>

theorem writeConcern_default_not_applied:
  "writeConcern [] [(''writeConcern'', JObj [(''w'', JNum (Fin 2))])] = []
   \<and> writeConcern [] [(''writeConcern'', JObj [(''w'', JNum (Fin 2))])]
       \<noteq> [(''w'', JNum (Fin 2))]
   \<and> writeConcern [(''w'', JNum (Fin 1))] [(''writeConcern'', JObj [(''w'', JNum (Fin 2))])]
       = [(''w'', JNum (Fin 1))]"
  by (simp add: writeConcern_def Let_def shallowClone_def get_property_def)

text \<open>
  Claim C7. When the caller's options contain any of the keys \<^verbatim>\<open>w\<close>, \<^verbatim>\<open>wtimeout\<close>, \<^verbatim>\<open>j\<close>,
  \<^verbatim>\<open>fsync\<close>, whatever the value (\<^verbatim>\<open>w: 0\<close> and \<^verbatim>\<open>j: false\<close> included), the resolver returns
  the copy of the options unchanged, whatever the database default is. The source tests
  truthiness, not presence, at its early return; a present falsy value goes on to the block
  that would apply the default, and that block assigns nothing, so the result is the same.
\<close>

theorem writeConcern_present_key_unchanged:
  "(k \<in> {''w'', ''wtimeout'', ''j'', ''fsync''} \<and> k \<in> fst ` set options
      \<longrightarrow> writeConcern options db = options)
   \<and> writeConcern [(''w'', JNum (Fin 0))] db = [(''w'', JNum (Fin 0))]
   \<and> writeConcern [(''j'', JBool False)] db = [(''j'', JBool False)]"
  by (simp add: writeConcern_returns_copy shallowClone_def)

theorem writeConcern_present_key_unchanged_witness:
  "writeConcern [(''j'', JBool False), (''dbName'', JStr ''admin'')]
      [(''writeConcern'', JObj [(''w'', JNum (Fin 2)), (''j'', JBool True)])]
    = [(''j'', JBool False), (''dbName'', JStr ''admin'')]"
  using writeConcern_present_key_unchanged
      [of "''j''" "[(''j'', JBool False), (''dbName'', JStr ''admin'')]"
        "[(''writeConcern'', JObj [(''w'', JNum (Fin 2)), (''j'', JBool True)])]"]
  by simp

section \<open>Validating a collection\<close>

lemma strict_equals_number_iff: "strict_equals v (JNum (Fin q)) \<longleftrightarrow> v = JNum (Fin q)"
  by (induction v "JNum (Fin q)" rule: strict_equals.induct) auto

lemma starts_with_iff: "starts_with w s \<longleftrightarrow> (\<exists>q. s = w @ q)"
  by (induction w s rule: starts_with.induct) auto

lemma occurs_in_iff: "occurs_in w s \<longleftrightarrow> (\<exists>p q. s = p @ w @ q)"
proof (induction s)
  case Nil
  show ?case by (simp add: starts_with_iff)
next
  case (Cons c s)
  have "(\<exists>p q. c # s = p @ w @ q) \<longleftrightarrow> (\<exists>q. c # s = w @ q) \<or> (\<exists>p q. s = p @ w @ q)"
  proof
    assume "\<exists>p q. c # s = p @ w @ q"
    then obtain p q where pq: "c # s = p @ w @ q" by blast
    show "(\<exists>q. c # s = w @ q) \<or> (\<exists>p q. s = p @ w @ q)"
    proof (cases p)
      case Nil
      with pq show ?thesis by auto
    next
      case (Cons c' p')
      with pq have "s = p' @ w @ q" by simp
      then show ?thesis by blast
    qed
  next
    assume "(\<exists>q. c # s = w @ q) \<or> (\<exists>p q. s = p @ w @ q)"
    then show "\<exists>p q. c # s = p @ w @ q"
    proof
      assume "\<exists>q. c # s = w @ q"
      then obtain q where "c # s = [] @ w @ q" by auto
      then show ?thesis by blast
    next
      assume "\<exists>p q. s = p @ w @ q"
      then obtain p q where "c # s = (c # p) @ w @ q" by auto
      then show ?thesis by blast
    qed
  qed
  with Cons show ?case by (simp add: starts_with_iff)
qed

lemma constructor_is_String_iff: "constructor_is_String v \<longleftrightarrow> (\<exists>r. v = JStr r)"
  by (cases v) auto

lemma falsy_not_null_iff:
  "\<not> loose_equals_null v \<and> \<not> truthy v \<longleftrightarrow>
     v = JBool False \<or> v = JNum (Fin 0) \<or> v = JNum NaN \<or> v = JStr []"
  by (induction v rule: truthy.induct) auto

lemma validateCollection_reply_checks:
  "loose_equals_null err \<Longrightarrow> \<not> loose_equals_null doc \<Longrightarrow>
   validateCollection_reply collectionName err doc =
     (if member doc ''ok'' = JNum (Fin 0)
      then Inr [[JError ''Error with validate command'', JNull]]
      else if \<not> loose_equals_null (member doc ''result'')
              \<and> (\<forall>r. member doc ''result'' \<noteq> JStr r)
      then Inr [[JError ''Error with validation data'', JNull]]
      else if \<exists>r. member doc ''result'' = JStr r
                  \<and> (occurs_in ''exception'' r \<or> occurs_in ''corrupt'' r)
      then Inr [[JError (''Error: invalid collection '' @ collectionName), JNull]]
      else if member doc ''valid'' = JBool False \<or> member doc ''valid'' = JNum (Fin 0)
              \<or> member doc ''valid'' = JNum NaN \<or> member doc ''valid'' = JStr []
      then Inr [[JError (''Error: invalid collection '' @ collectionName), JNull]]
      else Inr [[JNull, doc]])"
proof -
  assume err: "loose_equals_null err" and doc: "\<not> loose_equals_null doc"
  have valid: "(\<not> loose_equals_null (member doc ''valid'') \<and> \<not> truthy (member doc ''valid''))
      \<longleftrightarrow> (member doc ''valid'' = JBool False \<or> member doc ''valid'' = JNum (Fin 0)
            \<or> member doc ''valid'' = JNum NaN \<or> member doc ''valid'' = JStr [])"
    by (rule falsy_not_null_iff)
  show ?thesis
  proof (cases "member doc ''result''")
    case (JStr r)
    then show ?thesis
      using err doc valid
      by (simp add: validateCollection_reply_def strict_equals_number_iff
          matches_exception_or_corrupt_def)
  qed (use err doc valid in
      \<open>simp_all add: validateCollection_reply_def strict_equals_number_iff\<close>)
qed

text \<open>
  Claim C4. The handler that \<^verbatim>\<open>validateCollection\<close> passes to \<^verbatim>\<open>db.command\<close> should run
  four checks on the response, the last being that an explicit \<^verbatim>\<open>valid === false\<close> fails,
  and accept the response when none fails. The last check of the code is
  \<^verbatim>\<open>doc.valid != null && !doc.valid\<close>: the response \<^verbatim>\<open>{ok: 1, valid: 0}\<close> has \<^verbatim>\<open>ok\<close> other
  than 0, no \<^verbatim>\<open>result\<close> and a \<^verbatim>\<open>valid\<close> that is not \<^verbatim>\<open>false\<close>, so none of the four checks
  as stated fails, and yet the handler reports an invalid collection.
\<close>

theorem validateCollection_valid_zero_rejected:
  "validateCollection_reply ''users'' JNull (JObj [(''ok'', JNum (Fin 1)), (''valid'', JNum (Fin 0))])
     = Inr [[JError ''Error: invalid collection users'', JNull]]
   \<and> member (JObj [(''ok'', JNum (Fin 1)), (''valid'', JNum (Fin 0))]) ''ok'' \<noteq> JNum (Fin 0)
   \<and> member (JObj [(''ok'', JNum (Fin 1)), (''valid'', JNum (Fin 0))]) ''result'' = JUndefined
   \<and> \<not> strict_equals (member (JObj [(''ok'', JNum (Fin 1)), (''valid'', JNum (Fin 0))]) ''valid'')
         (JBool False)
   \<and> validateCollection_reply ''users'' JNull
        (JObj [(''ok'', JNum (Fin 1)), (''valid'', JNum (Fin 0))])
     \<noteq> Inr [[JNull, JObj [(''ok'', JNum (Fin 1)), (''valid'', JNum (Fin 0))]]]"
  by (simp add: validateCollection_reply_def get_property_def)

text \<open>
  Claim C4, amended. For a reply without error that carries a response, the handler of
  \<^verbatim>\<open>validateCollection\<close> runs four checks in order, the first that fails deciding the
  outcome: \<^verbatim>\<open>ok === 0\<close> fails with the validate-command error; otherwise a \<^verbatim>\<open>result\<close>
  that is present (not \<^verbatim>\<open>null\<close> or \<^verbatim>\<open>undefined\<close>) and not a string fails with the
  validation-data error; otherwise a \<^verbatim>\<open>result\<close> string in which \<^verbatim>\<open>exception\<close> or
  \<^verbatim>\<open>corrupt\<close> occurs fails with the invalid-collection error; otherwise a \<^verbatim>\<open>valid\<close> that
  is present and falsy (\<^verbatim>\<open>false\<close>, and also 0, NaN and the empty string) fails with the
  invalid-collection error. When none fails the callback receives \<^verbatim>\<open>(null, doc)\<close>, the raw
  response. Each outcome is one call of the callback. So \<^verbatim>\<open>{ok:1, valid:false}\<close> and
  \<^verbatim>\<open>{ok:1, result:"exception caught"}\<close> fail, and \<^verbatim>\<open>{ok:1, valid:true}\<close>, \<^verbatim>\<open>{ok:1}\<close> and
  \<^verbatim>\<open>{ok:1, result:"fine", valid:true}\<close> succeed with the document itself. A word occurs in
  a string when the string is some prefix, the word, and some suffix.
\<close>

theorem validateCollection_acceptance_check:
  "(loose_equals_null err \<and> \<not> loose_equals_null doc \<longrightarrow>
      validateCollection_reply collectionName err doc =
        (if member doc ''ok'' = JNum (Fin 0)
         then Inr [[JError ''Error with validate command'', JNull]]
         else if \<not> loose_equals_null (member doc ''result'')
                 \<and> (\<forall>r. member doc ''result'' \<noteq> JStr r)
         then Inr [[JError ''Error with validation data'', JNull]]
         else if \<exists>r. member doc ''result'' = JStr r
                     \<and> (occurs_in ''exception'' r \<or> occurs_in ''corrupt'' r)
         then Inr [[JError (''Error: invalid collection '' @ collectionName), JNull]]
         else if member doc ''valid'' = JBool False \<or> member doc ''valid'' = JNum (Fin 0)
                 \<or> member doc ''valid'' = JNum NaN \<or> member doc ''valid'' = JStr []
         then Inr [[JError (''Error: invalid collection '' @ collectionName), JNull]]
         else Inr [[JNull, doc]]))
   \<and> (occurs_in w s \<longleftrightarrow> (\<exists>p q. s = p @ w @ q))
   \<and> validateCollection_reply collectionName JNull
        (JObj [(''ok'', JNum (Fin 1)), (''valid'', JBool False)])
       = Inr [[JError (''Error: invalid collection '' @ collectionName), JNull]]
   \<and> validateCollection_reply collectionName JNull
        (JObj [(''ok'', JNum (Fin 1)), (''result'', JStr ''exception caught'')])
       = Inr [[JError (''Error: invalid collection '' @ collectionName), JNull]]
   \<and> validateCollection_reply collectionName JNull
        (JObj [(''ok'', JNum (Fin 1)), (''valid'', JBool True)])
       = Inr [[JNull, JObj [(''ok'', JNum (Fin 1)), (''valid'', JBool True)]]]
   \<and> validateCollection_reply collectionName JNull (JObj [(''ok'', JNum (Fin 1))])
       = Inr [[JNull, JObj [(''ok'', JNum (Fin 1))]]]
   \<and> validateCollection_reply collectionName JNull
        (JObj [(''ok'', JNum (Fin 1)), (''result'', JStr ''fine''), (''valid'', JBool True)])
       = Inr [[JNull,
               JObj [(''ok'', JNum (Fin 1)), (''result'', JStr ''fine''), (''valid'', JBool True)]]]"
proof -
  have general: "loose_equals_null err \<and> \<not> loose_equals_null doc \<longrightarrow>
      validateCollection_reply collectionName err doc =
        (if member doc ''ok'' = JNum (Fin 0)
         then Inr [[JError ''Error with validate command'', JNull]]
         else if \<not> loose_equals_null (member doc ''result'')
                 \<and> (\<forall>r. member doc ''result'' \<noteq> JStr r)
         then Inr [[JError ''Error with validation data'', JNull]]
         else if \<exists>r. member doc ''result'' = JStr r
                     \<and> (occurs_in ''exception'' r \<or> occurs_in ''corrupt'' r)
         then Inr [[JError (''Error: invalid collection '' @ collectionName), JNull]]
         else if member doc ''valid'' = JBool False \<or> member doc ''valid'' = JNum (Fin 0)
                 \<or> member doc ''valid'' = JNum NaN \<or> member doc ''valid'' = JStr []
         then Inr [[JError (''Error: invalid collection '' @ collectionName), JNull]]
         else Inr [[JNull, doc]])"
    using validateCollection_reply_checks [of err doc collectionName] by blast
  have occurs: "occurs_in w s \<longleftrightarrow> (\<exists>p q. s = p @ w @ q)"
    by (rule occurs_in_iff)
  have examples:
    "validateCollection_reply collectionName JNull
        (JObj [(''ok'', JNum (Fin 1)), (''valid'', JBool False)])
       = Inr [[JError (''Error: invalid collection '' @ collectionName), JNull]]"
    "validateCollection_reply collectionName JNull
        (JObj [(''ok'', JNum (Fin 1)), (''result'', JStr ''exception caught'')])
       = Inr [[JError (''Error: invalid collection '' @ collectionName), JNull]]"
    "validateCollection_reply collectionName JNull
        (JObj [(''ok'', JNum (Fin 1)), (''valid'', JBool True)])
       = Inr [[JNull, JObj [(''ok'', JNum (Fin 1)), (''valid'', JBool True)]]]"
    "validateCollection_reply collectionName JNull (JObj [(''ok'', JNum (Fin 1))])
       = Inr [[JNull, JObj [(''ok'', JNum (Fin 1))]]]"
    "validateCollection_reply collectionName JNull
        (JObj [(''ok'', JNum (Fin 1)), (''result'', JStr ''fine''), (''valid'', JBool True)])
       = Inr [[JNull,
               JObj [(''ok'', JNum (Fin 1)), (''result'', JStr ''fine''), (''valid'', JBool True)]]]"
    by (simp_all add: validateCollection_reply_def get_property_def
        matches_exception_or_corrupt_def)
  show ?thesis
    using general occurs examples by blast
qed

theorem validateCollection_acceptance_check_witness:
  "validateCollection_reply ''users'' JNull
      (JObj [(''ok'', JNum (Fin 0)), (''result'', JNum (Fin 7)), (''valid'', JBool False)])
     = Inr [[JError ''Error with validate command'', JNull]]
   \<and> validateCollection_reply ''users'' JUndefined
      (JObj [(''ok'', JNum (Fin 1)), (''result'', JNum (Fin 7)), (''valid'', JBool False)])
     = Inr [[JError ''Error with validation data'', JNull]]
   \<and> validateCollection_reply ''users'' JNull
      (JObj [(''ok'', JNum (Fin 1)), (''result'', JStr ''index corrupt''), (''valid'', JBool True)])
     = Inr [[JError ''Error: invalid collection users'', JNull]]
   \<and> validateCollection_reply ''users'' JNull
      (JObj [(''ok'', JNum (Fin 1)), (''result'', JStr ''fine''), (''valid'', JStr [])])
     = Inr [[JError ''Error: invalid collection users'', JNull]]
   \<and> validateCollection_reply ''users'' JNull
      (JObj [(''ns'', JStr ''db.users''), (''result'', JStr ''fine''), (''valid'', JNum (Fin 1))])
     = Inr [[JNull, JObj [(''ns'', JStr ''db.users''), (''result'', JStr ''fine''),
                          (''valid'', JNum (Fin 1))]]]"
  using validateCollection_acceptance_check
      [of JNull "JObj [(''ok'', JNum (Fin 0)), (''result'', JNum (Fin 7)), (''valid'', JBool False)]"
        "''users''" "[]" "[]"]
    validateCollection_acceptance_check
      [of JUndefined
        "JObj [(''ok'', JNum (Fin 1)), (''result'', JNum (Fin 7)), (''valid'', JBool False)]"
        "''users''" "[]" "[]"]
    validateCollection_acceptance_check
      [of JNull
        "JObj [(''ok'', JNum (Fin 1)), (''result'', JStr ''index corrupt''), (''valid'', JBool True)]"
        "''users''" "[]" "[]"]
    validateCollection_acceptance_check
      [of JNull "JObj [(''ok'', JNum (Fin 1)), (''result'', JStr ''fine''), (''valid'', JStr [])]"
        "''users''" "[]" "[]"]
    validateCollection_acceptance_check
      [of JNull
        "JObj [(''ns'', JStr ''db.users''), (''result'', JStr ''fine''), (''valid'', JNum (Fin 1))]"
        "''users''" "[]" "[]"]
  by (simp add: get_property_def)

section \<open>Profiling level\<close>

lemma SetProfilingLevelOperation_new_level:
  "level (SetProfilingLevelOperation_new lvl options) = lvl"
  by (simp add: SetProfilingLevelOperation_new_def)

lemma execute_legal_level:
  "lvl \<in> levelValues \<Longrightarrow>
   SetProfilingLevelOperation_execute (SetProfilingLevelOperation_new lvl options) err doc
     = ([[(''profile'',
           JNum (Fin (of_int (profile (SetProfilingLevelOperation_new lvl options)))))]],
        SetProfilingLevelOperation_reply lvl err doc)"
  by (simp add: SetProfilingLevelOperation_execute_def SetProfilingLevelOperation_new_level)

lemma execute_illegal_level:
  "lvl \<notin> levelValues \<Longrightarrow>
   SetProfilingLevelOperation_execute (SetProfilingLevelOperation_new lvl options) err doc
     = ([], Inr [[JError (''Error: illegal profiling level value '' @ lvl)]])"
  by (simp add: SetProfilingLevelOperation_execute_def SetProfilingLevelOperation_new_level)

text \<open>
  Claim C5. The constructor maps \<^verbatim>\<open>off\<close> to 0, \<^verbatim>\<open>slow_only\<close> to 1 and \<^verbatim>\<open>all\<close> to 2, and
  \<^verbatim>\<open>execute\<close> hands exactly the command \<^verbatim>\<open>{profile: N}\<close> with that integer to
  \<^verbatim>\<open>executeCommand\<close>, whatever the reply will be. For any other level \<^verbatim>\<open>execute\<close> issues
  no command and calls back at once with an error.
\<close>

theorem setProfilingLevel_command:
  "profile (SetProfilingLevelOperation_new ''off'' options) = 0
   \<and> profile (SetProfilingLevelOperation_new ''slow_only'' options) = 1
   \<and> profile (SetProfilingLevelOperation_new ''all'' options) = 2
   \<and> fst (SetProfilingLevelOperation_execute
            (SetProfilingLevelOperation_new ''off'' options) err doc)
       = [[(''profile'', JNum (Fin 0))]]
   \<and> fst (SetProfilingLevelOperation_execute
            (SetProfilingLevelOperation_new ''slow_only'' options) err doc)
       = [[(''profile'', JNum (Fin 1))]]
   \<and> fst (SetProfilingLevelOperation_execute
            (SetProfilingLevelOperation_new ''all'' options) err doc)
       = [[(''profile'', JNum (Fin 2))]]
   \<and> (lvl \<noteq> ''off'' \<and> lvl \<noteq> ''slow_only'' \<and> lvl \<noteq> ''all''
      \<longrightarrow> SetProfilingLevelOperation_execute
            (SetProfilingLevelOperation_new lvl options) err doc
          = ([], Inr [[JError (''Error: illegal profiling level value '' @ lvl)]]))"
proof -
  have legal: "''off'' \<in> levelValues" "''slow_only'' \<in> levelValues" "''all'' \<in> levelValues"
    by (simp_all add: levelValues_def)
  have prof: "profile (SetProfilingLevelOperation_new ''off'' options) = 0"
    "profile (SetProfilingLevelOperation_new ''slow_only'' options) = 1"
    "profile (SetProfilingLevelOperation_new ''all'' options) = 2"
    by (simp_all add: SetProfilingLevelOperation_new_def)
  have illegal: "lvl \<noteq> ''off'' \<and> lvl \<noteq> ''slow_only'' \<and> lvl \<noteq> ''all''
      \<longrightarrow> SetProfilingLevelOperation_execute
            (SetProfilingLevelOperation_new lvl options) err doc
          = ([], Inr [[JError (''Error: illegal profiling level value '' @ lvl)]])"
    by (simp add: execute_illegal_level levelValues_def)
  show ?thesis
    using illegal by (simp add: execute_legal_level legal prof)
qed

theorem setProfilingLevel_command_witness:
  "SetProfilingLevelOperation_execute (SetProfilingLevelOperation_new ''bogus'' [])
      JNull (JObj [(''ok'', JNum (Fin 1))])
     = ([], Inr [[JError ''Error: illegal profiling level value bogus'']])"
  using setProfilingLevel_command [of "[]" JNull "JObj [(''ok'', JNum (Fin 1))]" "''bogus''"]
  by simp

text \<open>
  Claim C8. For a recognised level, when the reply has no error and \<^verbatim>\<open>ok === 1\<close>, the
  callback is called once with \<^verbatim>\<open>(undefined, level)\<close>: the value delivered is the symbolic
  level string, not the integer sent in the command.
\<close>

theorem setProfilingLevel_returns_level:
  "(lvl \<in> levelValues \<and> loose_equals_null err \<and> member doc ''ok'' = JNum (Fin 1)
      \<longrightarrow> snd (SetProfilingLevelOperation_execute
                 (SetProfilingLevelOperation_new lvl options) err doc)
            = Inr [[JUndefined, JStr lvl]]
          \<and> JStr lvl
            \<noteq> JNum (Fin (of_int (profile (SetProfilingLevelOperation_new lvl options)))))
   \<and> SetProfilingLevelOperation_execute (SetProfilingLevelOperation_new ''all'' options)
        JNull (JObj [(''ok'', JNum (Fin 1))])
       = ([[(''profile'', JNum (Fin 2))]], Inr [[JUndefined, JStr ''all'']])"
proof -
  have ok: "member doc ''ok'' = JNum (Fin 1) \<Longrightarrow> \<not> loose_equals_null doc"
    by (cases doc) auto
  have general: "lvl \<in> levelValues \<and> loose_equals_null err \<and> member doc ''ok'' = JNum (Fin 1)
      \<longrightarrow> snd (SetProfilingLevelOperation_execute
                 (SetProfilingLevelOperation_new lvl options) err doc)
            = Inr [[JUndefined, JStr lvl]]"
    using ok by (simp add: execute_legal_level SetProfilingLevelOperation_reply_def)
  have example: "SetProfilingLevelOperation_execute
        (SetProfilingLevelOperation_new ''all'' options) JNull (JObj [(''ok'', JNum (Fin 1))])
       = ([[(''profile'', JNum (Fin 2))]], Inr [[JUndefined, JStr ''all'']])"
    by (simp add: SetProfilingLevelOperation_execute_def SetProfilingLevelOperation_new_def
        levelValues_def SetProfilingLevelOperation_reply_def get_property_def)
  show ?thesis
    using general example by simp
qed

theorem setProfilingLevel_returns_level_witness:
  "snd (SetProfilingLevelOperation_execute (SetProfilingLevelOperation_new ''slow_only'' [])
          JUndefined (JObj [(''was'', JNum (Fin 0)), (''ok'', JNum (Fin 1))]))
     = Inr [[JUndefined, JStr ''slow_only'']]"
  using setProfilingLevel_returns_level
      [of "''slow_only''" JUndefined "JObj [(''was'', JNum (Fin 0)), (''ok'', JNum (Fin 1))]" "[]"]
  by (simp add: levelValues_def get_property_def)

section \<open>Failure paths of the admin commands\<close>

lemma serverStatus_failure:
  "\<not> loose_equals_null err \<or> (\<not> loose_equals_null doc \<and> member doc ''ok'' \<noteq> JNum (Fin 1)) \<Longrightarrow>
   serverStatus_reply toError err doc
     = Inr [[if truthy err then err else toError doc, JBool False]]"
  by (auto simp add: serverStatus_reply_def strict_equals_number_iff)

lemma replSetGetStatus_failure:
  "\<not> loose_equals_null err \<or> (\<not> loose_equals_null doc \<and> member doc ''ok'' \<noteq> JNum (Fin 1)) \<Longrightarrow>
   replSetGetStatus_reply toError err doc
     = Inr [[if truthy err then err else toError doc, JBool False]]"
  by (auto simp add: replSetGetStatus_reply_def strict_equals_number_iff)

lemma validateCollection_transport_failure:
  "\<not> loose_equals_null err \<Longrightarrow> validateCollection_reply n err doc = Inr [[err, JNull]]"
  by (simp add: validateCollection_reply_def)

lemma setProfilingLevel_failure:
  "\<not> loose_equals_null err \<or> (\<not> loose_equals_null doc \<and> member doc ''ok'' \<noteq> JNum (Fin 1)) \<Longrightarrow>
   SetProfilingLevelOperation_reply lvl err doc
     = Inr [[if \<not> loose_equals_null err then err else JError ''Error with profile command'',
             JNull]]"
  by (auto simp add: SetProfilingLevelOperation_reply_def strict_equals_number_iff)

text \<open>
  Claim C6. Every failure path of an admin command should end in one callback call of the
  shape \<^verbatim>\<open>done(error, null)\<close>. The handlers of \<^verbatim>\<open>serverStatus\<close> and \<^verbatim>\<open>replSetGetStatus\<close>
  call \<^verbatim>\<open>callback(err, false)\<close> and \<^verbatim>\<open>callback(toError(doc), false)\<close>: on a transport
  error, and on a reply with \<^verbatim>\<open>ok: 0\<close>, the caller receives \<^verbatim>\<open>false\<close> as the result, not
  \<^verbatim>\<open>null\<close>. The handlers of \<^verbatim>\<open>validateCollection\<close> and of the profile command, given the
  same transport error, pass \<^verbatim>\<open>null\<close>.
\<close>

theorem admin_failure_result_not_null:
  "snd (serverStatus (\<lambda>d. JError ''command failed'') (JError ''connection closed'') JUndefined)
     = Inr [[JError ''connection closed'', JBool False]]
   \<and> snd (serverStatus (\<lambda>d. JError ''command failed'') (JError ''connection closed'')
            JUndefined)
     \<noteq> Inr [[JError ''connection closed'', JNull]]
   \<and> snd (replSetGetStatus (\<lambda>d. JError ''command failed'') JNull
            (JObj [(''ok'', JNum (Fin 0)), (''errmsg'', JStr ''not running with --replSet'')]))
     = Inr [[JError ''command failed'', JBool False]]
   \<and> validateCollection_reply ''users'' (JError ''connection closed'') JUndefined
     = Inr [[JError ''connection closed'', JNull]]
   \<and> SetProfilingLevelOperation_reply ''all'' (JError ''connection closed'') JUndefined
     = Inr [[JError ''connection closed'', JNull]]"
  by (simp add: serverStatus_def serverStatus_reply_def replSetGetStatus_def
      replSetGetStatus_reply_def validateCollection_reply_def
      SetProfilingLevelOperation_reply_def get_property_def)

section \<open>Construction-time validation\<close>

lemma UpdateOneOperation_new_rejects:
  "\<not> hasAtomicOperators update \<Longrightarrow>
   UpdateOneOperation_new hasAtomicOperators collection filter' update options
     = Inl (TypeError ''Update document requires atomic operators'')"
  by (simp add: UpdateOneOperation_new_def)

lemma DeleteManyOperation_new_rejects:
  "\<not> isObject filter' \<Longrightarrow>
   DeleteManyOperation_new collection filter' options
     = Inl (TypeError ''filter is a required parameter'')"
  by (simp add: DeleteManyOperation_new_def)

lemma UpdateManyOperation_new_never_throws:
  "UpdateManyOperation_new collection filter' update options
     = Inr (UpdateManyOperation collection filter' update options)"
  by (simp add: UpdateManyOperation_new_def)

lemma DeleteOneOperation_new_never_throws:
  "DeleteOneOperation_new collection filter' options
     = Inr (DeleteOneOperation collection filter' options)"
  by (simp add: DeleteOneOperation_new_def)

text \<open>
  Claim C9. Every type-specific constructor should throw when its structural precondition
  is violated. \<^verbatim>\<open>UpdateOneOperation\<close> checks \<^verbatim>\<open>hasAtomicOperators(update)\<close> and
  \<^verbatim>\<open>DeleteManyOperation\<close> checks \<^verbatim>\<open>isObject(filter)\<close>, but their siblings do not:
  \<^verbatim>\<open>new UpdateManyOperation(coll, {}, {a: 1}, {})\<close>, whose update document has no operator,
  and \<^verbatim>\<open>new DeleteOneOperation(coll, undefined, {})\<close>, whose filter is not an object,
  both construct the operation, while \<^verbatim>\<open>new DeleteManyOperation(coll, undefined, {})\<close>
  throws.
\<close>

theorem many_and_one_constructors_unchecked:
  "UpdateManyOperation_new ''coll'' (JObj []) (JObj [(''a'', JNum (Fin 1))]) []
     = Inr (UpdateManyOperation ''coll'' (JObj []) (JObj [(''a'', JNum (Fin 1))]) [])
   \<and> DeleteOneOperation_new ''coll'' JUndefined []
     = Inr (DeleteOneOperation ''coll'' JUndefined [])
   \<and> DeleteManyOperation_new ''coll'' JUndefined []
     = Inl (TypeError ''filter is a required parameter'')"
  by (simp add: UpdateManyOperation_new_def DeleteOneOperation_new_def
      DeleteManyOperation_new_def isObject_def)

end
